theory Spec2Isabelle
  imports Complex_Main
begin

section \<open>JavaScript values used by the commands\<close>

text \<open>
  The two commands (\<^verbatim>\<open>src/commands/build.mjs\<close> and \<^verbatim>\<open>src/commands/run.mjs\<close>) work on
  strings, arrays of strings and numbers. Strings are \<open>string\<close>, arrays are lists, a value
  that may be \<^verbatim>\<open>null\<close> or \<^verbatim>\<open>undefined\<close> is an \<open>option\<close>.
\<close>

text \<open>\<^verbatim>\<open>a ?? b\<close>: the right operand only when the left one is null or undefined.\<close>

definition nullish :: "'a option \<Rightarrow> 'a \<Rightarrow> 'a" where
  "nullish a b = (case a of None \<Rightarrow> b | Some v \<Rightarrow> v)"

text \<open>
  Truthiness. Every object is truthy, the empty array included; a string is truthy when
  it is not empty; null and undefined are falsy.
\<close>

definition truthy_array :: "'a list \<Rightarrow> bool" where
  "truthy_array xs = True"

definition truthy_string :: "string \<Rightarrow> bool" where
  "truthy_string s = (s \<noteq> [])"

definition truthy_opt_string :: "string option \<Rightarrow> bool" where
  "truthy_opt_string s = (case s of None \<Rightarrow> False | Some v \<Rightarrow> truthy_string v)"

text \<open>\<^verbatim>\<open>a || b\<close> on a value that is an array (or an object) or null.\<close>

definition or_else :: "'a option \<Rightarrow> 'a \<Rightarrow> 'a" where
  "or_else a b = (case a of None \<Rightarrow> b | Some v \<Rightarrow> v)"

text \<open>\<^verbatim>\<open>Array.prototype.join\<close> on an array of strings.\<close>

fun join :: "string \<Rightarrow> string list \<Rightarrow> string" where
  "join sep [] = []"
| "join sep [x] = x"
| "join sep (x # y # ys) = x @ sep @ join sep (y # ys)"

text \<open>
  Decimal notation of a natural number: all its digits, most significant first.
\<close>

definition digit :: "nat \<Rightarrow> char" where
  "digit d = ''0123456789'' ! d"

fun show_nat :: "nat \<Rightarrow> string" where
  "show_nat n = (if n < 10 then [digit n] else show_nat (n div 10) @ [digit (n mod 10)])"

text \<open>
  JavaScript numbers are IEEE doubles. The model takes a number that is an integer as an
  \<open>int\<close>, and covers the safe integers, those of absolute value at most
  \<^verbatim>\<open>Number.MAX_SAFE_INTEGER\<close> = \<open>2\<^sup>5\<^sup>3 - 1\<close>: each of them is a double, and the
  quotient of a safe integer by a power of two is computed exactly.
\<close>

definition MAX_SAFE_INTEGER :: int where
  "MAX_SAFE_INTEGER = 9007199254740991"

text \<open>
  Number-to-string, as \<^verbatim>\<open>toString()\<close> and template literals apply it. For a safe integer
  the text is the sign and all the decimal digits. Beyond the safe integers the conversion
  prints the shortest digits that identify the double, padded with zeros, and from
  \<open>10\<^sup>2\<^sup>1\<close> on it uses exponent notation (\<^verbatim>\<open>1e+21\<close>): this is not modelled, and the
  function is left unspecified there.
\<close>

definition number_toString :: "int \<Rightarrow> string" where
  "number_toString i =
     (if \<bar>i\<bar> \<le> MAX_SAFE_INTEGER
      then (if i < 0 then ''-'' @ show_nat (nat (- i)) else show_nat (nat i))
      else undefined)"

definition startsWith :: "string \<Rightarrow> string \<Rightarrow> bool" where
  "startsWith s p = (take (length p) s = p)"

section \<open>The validated configuration\<close>

text \<open>
  The object \<^verbatim>\<open>info\<close> that \<^verbatim>\<open>getImageInfo\<close> builds (build.mjs, lines 36 to 46).
  \<^verbatim>\<open>workdir\<close> is read from the inspection without a default, so it may be undefined.
\<close>

record info =
  cmd :: "string list"
  dataSize :: string
  entrypoint :: "string list"
  env :: "string list"
  ramSize :: string
  sdkName :: string
  sdkVersion :: string
  workdir :: "string option"

section \<open>Stage command builders\<close>

text \<open>\<^verbatim>\<open>createRootfsTarCommand\<close> (build.mjs, lines 121 to 138).\<close>

definition createRootfsTarCommand :: "string list" where
  "createRootfsTarCommand =
     (let command = [''cat'', ''/tmp/input'', ''|'', ''crane'', ''export'', ''-'', ''-'', ''|'',
                     ''bsdtar'', ''-cf'', ''/tmp/output'', ''--format=gnutar'', ''@/dev/stdin'']
      in [''/usr/bin/env'', ''bash'', ''-c'', join '' '' command])"

text \<open>
  \<^verbatim>\<open>createExt2Command\<close> (build.mjs, lines 141 to 157). \<^verbatim>\<open>extraBytes\<close> is the number that
  \<^verbatim>\<open>bytes.parse\<close> returned. For a safe integer the floating point division by 4096 is
  the exact quotient, \<^verbatim>\<open>Math.ceil\<close> is its ceiling, and the ceiling is a safe integer
  again. For a number beyond the safe integers (which the source accepts as well: it
  returns \<^verbatim>\<open>+1e+21\<close> as the size for \<open>4096 * 10\<^sup>2\<^sup>1\<close> bytes) the command is not
  modelled, and the function is left unspecified there.
\<close>

definition createExt2Command :: "int \<Rightarrow> string list" where
  "createExt2Command extraBytes =
     (if \<bar>extraBytes\<bar> \<le> MAX_SAFE_INTEGER
      then
        (let blockSize = (4096 :: int);
             extraBlocks = \<lceil>real_of_int extraBytes / real_of_int blockSize\<rceil>;
             extraSize = ''+'' @ number_toString extraBlocks
         in [''xgenext2fs'', ''--tarball'', ''/tmp/input'', ''--block-size'',
             number_toString blockSize, ''--faketime'', ''-r'', extraSize, ''/tmp/output''])
      else undefined)"

text \<open>\<^verbatim>\<open>createMachineSnapshotCommand\<close> (build.mjs, lines 159 to 181).\<close>

definition createMachineSnapshotCommand :: "info \<Rightarrow> string list" where
  "createMachineSnapshotCommand i =
     (let ramSize' = ramSize i;
          driveLabel = ''root'';
          envs = map (\<lambda>variable. ''--env='' @ variable) (env i);
          entrypoint' = join '' '' (entrypoint i @ cmd i);
          cwd = (if truthy_opt_string (workdir i) then ''--workdir='' @ the (workdir i) else '''')
      in [''create_machine_snapshot'',
          ''--ram-length='' @ ramSize',
          ''--drive-label='' @ driveLabel,
          ''--drive-filename=/tmp/input'',
          ''--output=/tmp/output'',
          cwd]
         @ envs
         @ [''--entrypoint='' @ entrypoint'])"

section \<open>Errors, external commands and the state they act on\<close>

text \<open>
  Every \<^verbatim>\<open>throw\<close> of the two commands, and every way a call they make can reject:
  the four \<^verbatim>\<open>new Error(...)\<close> of build.mjs and the one of run.mjs (named after their
  messages, with the interpolated value), the \<^verbatim>\<open>TypeError\<close> of a property read on
  \<^verbatim>\<open>undefined\<close>, the rejection of \<^verbatim>\<open>execa\<close> on a non-zero exit code (with the command and
  the code, its \<^verbatim>\<open>exitCode\<close>), and the rejection of \<^verbatim>\<open>fs.chmod\<close> on a missing path.
\<close>

datatype docker_cmd =
    ImageInspect string
  | ImageSave string string
  | ContainerCreate string string "string list"
  | ContainerStart string
  | ContainerCp string string
  | ContainerStop string
  | ContainerRm string
  | ComposeUp "string list" "string list" "(string \<times> string) list"
  | ComposeDown "string list" "(string \<times> string) list"

text \<open>
  The arguments that \<^verbatim>\<open>execa("docker", ...)\<close> receives for each command. For the two
  compose commands the last component is the \<^verbatim>\<open>env\<close> option, which is not an argument.
\<close>

fun argv :: "docker_cmd \<Rightarrow> string list" where
  "argv (ImageInspect img) = [''image'', ''inspect'', img]"
| "argv (ImageSave img outputFilePath) = [''image'', ''save'', img, ''-o'', outputFilePath]"
| "argv (ContainerCreate inputPath sdkImage command) =
     [''container'', ''create'', ''--volume'', inputPath @ '':/tmp/input'', sdkImage] @ command"
| "argv (ContainerStart cid) = [''container'', ''start'', ''-a'', cid]"
| "argv (ContainerCp cid outputPath) = [''container'', ''cp'', cid @ '':/tmp/output'', outputPath]"
| "argv (ContainerStop cid) = [''container'', ''stop'', cid]"
| "argv (ContainerRm cid) = [''container'', ''rm'', cid]"
| "argv (ComposeUp compose_args up_args e) = compose_args @ [''up''] @ up_args"
| "argv (ComposeDown compose_args e) = compose_args @ [''down'', ''--volumes'']"

datatype error =
    InvalidArchitecture string
  | UndefinedEntrypointOrCmd
  | UnsupportedSdkVersion string
  | InvalidDataSize string
  | SnapshotNotFound
  | TypeError
  | ExecaError docker_cmd nat
  | ENOENT string

text \<open>
  What \<^verbatim>\<open>docker image inspect\<close> prints, after \<^verbatim>\<open>JSON.parse\<close>: the fields that
  \<^verbatim>\<open>getImageInfo\<close> reads. A field that docker prints as \<^verbatim>\<open>null\<close>, or leaves out, is \<open>None\<close>.
\<close>

record config =
  Cmd :: "string list option"
  Entrypoint :: "string list option"
  Env :: "string list option"
  Labels :: "(string \<rightharpoonup> string) option"
  WorkingDir :: "string option"

record image_inspect =
  Architecture :: string
  Config :: config

text \<open>
  The docker daemon is outside the program: the exit code and the standard output of each
  command, and the parsed inspection of each image, are parameters.
\<close>

record docker =
  exit_code :: "docker_cmd \<Rightarrow> nat"
  stdout :: "docker_cmd \<Rightarrow> string"
  inspected :: "string \<Rightarrow> image_inspect"

text \<open>
  The state the commands act on: the paths that exist in the working directory, the modes
  set by \<^verbatim>\<open>chmod\<close>, the containers that exist (created and not removed), the docker
  commands run so far, in order, and the warnings printed.
\<close>

record world =
  files :: "string set"
  modes :: "string \<rightharpoonup> nat"
  containers :: "string list"
  calls :: "docker_cmd list"
  warnings :: "string list"

text \<open>
  An asynchronous function is a function of the state that returns the new state with
  either the value it resolves to or the error it rejects with. \<open>io_bind\<close> is
  \<^verbatim>\<open>await\<close> followed by the rest of the function: a rejection skips the rest.
\<close>

type_synonym 'a io = "world \<Rightarrow> (error + 'a) \<times> world"

definition io_return :: "'a \<Rightarrow> 'a io" where
  "io_return x = (\<lambda>w. (Inr x, w))"

definition throw :: "error \<Rightarrow> 'a io" where
  "throw e = (\<lambda>w. (Inl e, w))"

definition io_bind :: "'a io \<Rightarrow> ('a \<Rightarrow> 'b io) \<Rightarrow> 'b io" where
  "io_bind m f = (\<lambda>w. case m w of (Inl e, w') \<Rightarrow> (Inl e, w') | (Inr x, w') \<Rightarrow> f x w')"

text \<open>
  \<^verbatim>\<open>try { m } finally { fin }\<close>: \<open>fin\<close> runs after \<open>m\<close> however \<open>m\<close> ends; the
  statement ends as \<open>m\<close> did, unless \<open>fin\<close> itself throws.
\<close>

definition try_finally :: "'a io \<Rightarrow> unit io \<Rightarrow> 'a io" where
  "try_finally m fin =
     (\<lambda>w. case m w of (r, w') \<Rightarrow>
        (case fin w' of (Inl e, w'') \<Rightarrow> (Inl e, w'') | (Inr u, w'') \<Rightarrow> (r, w'')))"

text \<open>\<^verbatim>\<open>try { m } catch (e) { h e }\<close>.\<close>

definition try_catch :: "'a io \<Rightarrow> (error \<Rightarrow> 'a io) \<Rightarrow> 'a io" where
  "try_catch m h = (\<lambda>w. case m w of (Inl e, w') \<Rightarrow> h e w' | (Inr x, w') \<Rightarrow> (Inr x, w'))"

text \<open>
  What a docker command that exits with code 0 does to the state: \<^verbatim>\<open>image save\<close> and
  \<^verbatim>\<open>container cp\<close> write their output path, \<^verbatim>\<open>container create\<close> adds the container whose
  id it prints, \<^verbatim>\<open>container rm\<close> removes the container.
\<close>

fun effect :: "docker \<Rightarrow> docker_cmd \<Rightarrow> world \<Rightarrow> world" where
  "effect d (ImageSave img outputFilePath) w = w\<lparr>files := insert outputFilePath (files w)\<rparr>"
| "effect d (ContainerCreate inputPath sdkImage command) w =
     w\<lparr>containers := containers w @ [stdout d (ContainerCreate inputPath sdkImage command)]\<rparr>"
| "effect d (ContainerCp cid outputPath) w = w\<lparr>files := insert outputPath (files w)\<rparr>"
| "effect d (ContainerRm cid) w = w\<lparr>containers := removeAll cid (containers w)\<rparr>"
| "effect d c w = w"

text \<open>
  \<^verbatim>\<open>await execa("docker", argv c)\<close>: the command is run; on exit code 0 the call resolves
  to the standard output, on any other exit code it rejects with that code.
\<close>

definition execa :: "docker \<Rightarrow> docker_cmd \<Rightarrow> string io" where
  "execa d c =
     (\<lambda>w. let w1 = w\<lparr>calls := calls w @ [c]\<rparr>
          in if exit_code d c = 0 then (Inr (stdout d c), effect d c w1)
             else (Inl (ExecaError c (exit_code d c)), w1))"

text \<open>
  The three calls of fs-extra. \<^verbatim>\<open>emptyDir\<close> deletes what the directory holds,
  \<^verbatim>\<open>remove\<close> deletes a path and does nothing when the path does not exist, \<^verbatim>\<open>chmod\<close>
  rejects when the path does not exist.
\<close>

definition fs_emptyDir :: "unit io" where
  "fs_emptyDir = (\<lambda>w. (Inr (), w\<lparr>files := {}, modes := Map.empty\<rparr>))"

definition fs_remove :: "string \<Rightarrow> unit io" where
  "fs_remove p = (\<lambda>w. (Inr (), w\<lparr>files := files w - {p}, modes := (modes w)(p := None)\<rparr>))"

definition fs_chmod :: "string \<Rightarrow> nat \<Rightarrow> unit io" where
  "fs_chmod p m =
     (\<lambda>w. if p \<in> files w then (Inr (), w\<lparr>modes := (modes w)(p \<mapsto> m)\<rparr>) else (Inl (ENOENT p), w))"

text \<open>
  The value of \<^verbatim>\<open>this\<close> in a function body. Both files are modules, so their code is
  strict: in a function called as \<^verbatim>\<open>f(x)\<close>, \<^verbatim>\<open>this\<close> is undefined, and reading a property
  of it throws a \<^verbatim>\<open>TypeError\<close>. \<open>Command\<close> stands for a receiver that has the \<^verbatim>\<open>warn\<close>
  method and the \<^verbatim>\<open>config\<close> property.
\<close>

datatype js_this = Undefined | Command

definition this_warn :: "js_this \<Rightarrow> string \<Rightarrow> unit io" where
  "this_warn this msg =
     (case this of
        Undefined \<Rightarrow> throw TypeError
      | Command \<Rightarrow> (\<lambda>w. (Inr (), w\<lparr>warnings := warnings w @ [msg]\<rparr>)))"

text \<open>
  The packages \<^verbatim>\<open>semver\<close> and \<^verbatim>\<open>bytes\<close> are not part of the repository: the three
  functions the code calls are parameters. \<open>semver_valid\<close> is the truth value of
  \<^verbatim>\<open>semver.valid(v)\<close>; \<open>bytes_parse\<close> is \<^verbatim>\<open>bytes(s)\<close>, which is \<^verbatim>\<open>bytes.parse(s)\<close> on a
  string, with \<open>None\<close> for \<^verbatim>\<open>null\<close>.
\<close>

record libs =
  semver_valid :: "string \<Rightarrow> bool"
  semver_lt :: "string \<Rightarrow> string \<Rightarrow> bool"
  bytes_parse :: "string \<Rightarrow> int option"

text \<open>
  Modelled from the spec: \<^verbatim>\<open>getAbsolutePath\<close> of \<^verbatim>\<open>../helper.mjs\<close>, which is not among the
  sources. The artifacts are named relative to the working directory \<open>ctx\<close>; without a
  name the function returns the working directory itself.
\<close>

definition getAbsolutePath :: "string \<Rightarrow> string list \<Rightarrow> string" where
  "getAbsolutePath ctx parts = join ''/'' (ctx # parts)"

section \<open>The build command\<close>

definition CARTESI_LABEL_PREFIX :: string where
  "CARTESI_LABEL_PREFIX = ''io.cartesi.rollups''"

definition CARTESI_LABEL_RAM_SIZE :: string where
  "CARTESI_LABEL_RAM_SIZE = CARTESI_LABEL_PREFIX @ ''.ram_size''"

definition CARTESI_LABEL_DATA_SIZE :: string where
  "CARTESI_LABEL_DATA_SIZE = CARTESI_LABEL_PREFIX @ ''.data_size''"

definition CARTESI_DEFAULT_RAM_SIZE :: string where
  "CARTESI_DEFAULT_RAM_SIZE = ''128Mi''"

definition CARTESI_LABEL_SDK_VERSION :: string where
  "CARTESI_LABEL_SDK_VERSION = CARTESI_LABEL_PREFIX @ ''.sdk_version''"

definition CARTESI_LABEL_SDK_NAME :: string where
  "CARTESI_LABEL_SDK_NAME = CARTESI_LABEL_PREFIX @ ''.sdk_name''"

definition CARTESI_DEFAULT_SDK_VERSION :: string where
  "CARTESI_DEFAULT_SDK_VERSION = ''0.9.0''"

text \<open>
  The object \<^verbatim>\<open>info\<close> that lines 35 to 46 of build.mjs build from the inspection, with
  the defaults for what the image does not set.
\<close>

definition image_info :: "image_inspect \<Rightarrow> info" where
  "image_info imageInfo =
     (let labels = or_else (Labels (Config imageInfo)) Map.empty
      in \<lparr> cmd = nullish (Cmd (Config imageInfo)) [],
           dataSize = nullish (labels CARTESI_LABEL_DATA_SIZE) ''10Mb'',
           entrypoint = nullish (Entrypoint (Config imageInfo)) [],
           env = or_else (Env (Config imageInfo)) [],
           ramSize = nullish (labels CARTESI_LABEL_RAM_SIZE) CARTESI_DEFAULT_RAM_SIZE,
           sdkName = nullish (labels CARTESI_LABEL_SDK_NAME) ''cartesi/sdk'',
           sdkVersion = nullish (labels CARTESI_LABEL_SDK_VERSION) CARTESI_DEFAULT_SDK_VERSION,
           workdir = WorkingDir (Config imageInfo) \<rparr>)"

text \<open>
  \<^verbatim>\<open>getImageInfo\<close> (build.mjs, lines 19 to 85). \<open>this\<close> is the function's \<^verbatim>\<open>this\<close>. The
  checks are in the order of the source. After the defaults of lines 37 and 39,
  \<^verbatim>\<open>info.entrypoint\<close> and \<^verbatim>\<open>info.cmd\<close> are arrays, and line 48 tests their truthiness.
\<close>

definition getImageInfo :: "libs \<Rightarrow> docker \<Rightarrow> js_this \<Rightarrow> string \<Rightarrow> info io" where
  "getImageInfo L d this img =
     io_bind (execa d (ImageInspect img)) (\<lambda>jsonStr.
       let imageInfo = inspected d img in
       if Architecture imageInfo \<noteq> ''riscv64''
       then throw (InvalidArchitecture (Architecture imageInfo))
       else
         let i = image_info imageInfo in
         if \<not> truthy_array (entrypoint i) \<and> \<not> truthy_array (cmd i)
         then throw UndefinedEntrypointOrCmd
         else
           io_bind
             (if \<not> semver_valid L (sdkVersion i)
              then this_warn this ''sdk version is not a valid semver''
              else if sdkName i = ''cartesi/sdk''
                      \<and> semver_lt L (sdkVersion i) CARTESI_DEFAULT_SDK_VERSION
              then throw (UnsupportedSdkVersion (sdkVersion i))
              else io_return ()) (\<lambda>_.
           io_bind
             (if truthy_string (sdkVersion i) then io_return ()
              else this_warn this
                     (''Undefined '' @ CARTESI_LABEL_SDK_VERSION @ '' label, defaulting to ''
                      @ CARTESI_DEFAULT_SDK_VERSION)) (\<lambda>_.
           io_bind
             (if truthy_string (ramSize i) then io_return ()
              else this_warn this
                     (''Undefined '' @ CARTESI_LABEL_RAM_SIZE @ '' label, defaulting to ''
                      @ CARTESI_DEFAULT_RAM_SIZE)) (\<lambda>_.
           if bytes_parse L (dataSize i) = None
           then throw (InvalidDataSize (dataSize i))
           else io_return i))))"

text \<open>\<^verbatim>\<open>createTarball\<close> (build.mjs, lines 88 to 91).\<close>

definition createTarball :: "docker \<Rightarrow> string \<Rightarrow> string \<Rightarrow> unit io" where
  "createTarball d img outputFilePath =
     io_bind (execa d (ImageSave img outputFilePath)) (\<lambda>_. io_return ())"

text \<open>
  \<^verbatim>\<open>sdkRun\<close> (build.mjs, lines 95 to 118): five awaited calls in a row, with no
  \<^verbatim>\<open>try\<close> around them.
\<close>

definition sdkRun :: "docker \<Rightarrow> string \<Rightarrow> string list \<Rightarrow> string \<Rightarrow> string \<Rightarrow> unit io" where
  "sdkRun d sdkImage command inputPath outputPath =
     io_bind (execa d (ContainerCreate inputPath sdkImage command)) (\<lambda>cid.
     io_bind (execa d (ContainerStart cid)) (\<lambda>_.
     io_bind (execa d (ContainerCp cid outputPath)) (\<lambda>_.
     io_bind (execa d (ContainerStop cid)) (\<lambda>_.
     io_bind (execa d (ContainerRm cid)) (\<lambda>_.
     io_return ())))))"

text \<open>
  \<^verbatim>\<open>run\<close> of build.mjs (lines 183 to 231), with the working directory \<open>ctx\<close>. The call
  \<^verbatim>\<open>getImageInfo(appImage)\<close> of line 199 has no receiver, so \<^verbatim>\<open>this\<close> is undefined in
  \<^verbatim>\<open>getImageInfo\<close>. \<^verbatim>\<open>bytes.parse\<close> returned a number when line 214 is reached (line 76
  has checked it); \<^verbatim>\<open>null\<close> would count as 0 in the division. The mode \<^verbatim>\<open>0o755\<close> is 493.
  \<^verbatim>\<open>tmp.setGracefulCleanup()\<close> concerns files made with the \<^verbatim>\<open>tmp\<close> package, and there
  are none.
\<close>

definition build_run :: "libs \<Rightarrow> docker \<Rightarrow> string \<Rightarrow> string \<Rightarrow> unit io" where
  "build_run L d ctx imageHash =
     (let snapshotPath = getAbsolutePath ctx [''image''];
          tarPath = getAbsolutePath ctx [''image.tar''];
          gnuTarPath = getAbsolutePath ctx [''image.gnutar''];
          ext2Path = getAbsolutePath ctx [''image.ext2''];
          appImage = imageHash
      in
      io_bind fs_emptyDir (\<lambda>_.
      io_bind (getImageInfo L d Undefined appImage) (\<lambda>imageInfo.
        let sdkImage = sdkName imageInfo @ '':'' @ sdkVersion imageInfo in
        try_finally
          (io_bind (createTarball d appImage tarPath) (\<lambda>_.
           io_bind (sdkRun d sdkImage createRootfsTarCommand tarPath gnuTarPath) (\<lambda>_.
           io_bind (sdkRun d sdkImage
                      (createExt2Command
                         (case bytes_parse L (dataSize imageInfo) of None \<Rightarrow> 0 | Some n \<Rightarrow> n))
                      gnuTarPath ext2Path) (\<lambda>_.
           io_bind (sdkRun d sdkImage (createMachineSnapshotCommand imageInfo)
                      ext2Path snapshotPath) (\<lambda>_.
           fs_chmod snapshotPath 493)))))
          (io_bind (fs_remove gnuTarPath) (\<lambda>_. fs_remove tarPath)))))"

definition build :: "libs \<Rightarrow> docker \<Rightarrow> string \<Rightarrow> string \<Rightarrow> unit io" where
  "build L d ctx imageHash = build_run L d ctx imageHash"

section \<open>The run command\<close>

text \<open>
  What the run command reads from its host: the content of the file \<^verbatim>\<open>image/hash\<close> in
  hexadecimal (\<open>None\<close> when the file does not exist), the directory \<^verbatim>\<open>binPath\<close> that lines
  36 and 37 compute from the module's address, and whether \<^verbatim>\<open>./.cartesi.env\<close> exists.
  \<^verbatim>\<open>isHash\<close> belongs to the package \<^verbatim>\<open>viem\<close> and is a parameter.
\<close>

record host =
  hashFile :: "string option"
  isHash :: "string \<Rightarrow> bool"
  binPath :: string
  envFileExists :: bool

text \<open>\<^verbatim>\<open>getMachineHash\<close> (run.mjs, lines 9 to 19).\<close>

definition getMachineHash :: "host \<Rightarrow> string option" where
  "getMachineHash h =
     (case hashFile h of
        None \<Rightarrow> None
      | Some hash \<Rightarrow> if isHash h (''0x'' @ hash) then Some (''0x'' @ hash) else None)"

text \<open>\<^verbatim>\<open>e.exitCode\<close>: only the rejection of \<^verbatim>\<open>execa\<close> carries one.\<close>

fun exitCode :: "error \<Rightarrow> nat option" where
  "exitCode (ExecaError c n) = Some n"
| "exitCode e = None"

text \<open>
  \<^verbatim>\<open>path.normalize(path.join(binPath, "node", f))\<close>, for a \<^verbatim>\<open>binPath\<close> that is already
  normal: the parts joined by a slash.
\<close>

definition path_join :: "string list \<Rightarrow> string" where
  "path_join parts = join ''/'' parts"

text \<open>
  \<^verbatim>\<open>run\<close> of run.mjs (lines 21 to 127). \<open>verbose\<close> is true or undefined (false here),
  \<open>blockTime\<close> and \<open>epoch_length\<close> are non-negative integers or undefined (their text
  is modelled for the safe integers),
  \<open>listen_port\<close> is a string or undefined. The message of line 30 reads
  \<^verbatim>\<open>this.config.bin\<close>. \<^verbatim>\<open>process.on("SIGINT", ...)\<close> installs an empty handler and
  is left out.
\<close>

definition Run_run ::
  "host \<Rightarrow> docker \<Rightarrow> js_this \<Rightarrow> bool \<Rightarrow> nat option \<Rightarrow> nat option \<Rightarrow> string option \<Rightarrow> unit io"
where
  "Run_run h d this verbose blockTime epoch_length listen_port =
     (let hash = getMachineHash h in
      if \<not> truthy_opt_string hash
      then (case this of Undefined \<Rightarrow> throw TypeError | Command \<Rightarrow> throw SnapshotNotFound)
      else
        let projectName = take 8 (drop 2 (the hash));
            blockInterval = (case blockTime of None \<Rightarrow> 5 | Some n \<Rightarrow> if n = 0 then 5 else n);
            epochLength = (case epoch_length of None \<Rightarrow> 720 | Some n \<Rightarrow> if n = 0 then 720 else n);
            listenPort = (if truthy_opt_string listen_port then the listen_port
                          else number_toString 8080);
            e = [(''ANVIL_VERBOSITY'', if verbose then ''--steps-tracing'' else ''--silent''),
                 (''BLOCK_TIME'', number_toString (int blockInterval)),
                 (''BLOCK_TIMEOUT'', number_toString (int blockInterval + 3)),
                 (''CARTESI_EPOCH_LENGTH'', number_toString (int epochLength)),
                 (''CARTESI_EXPERIMENTAL_DISABLE_CONFIG_LOG'', if verbose then ''false'' else ''true''),
                 (''CARTESI_EXPERIMENTAL_SERVER_MANAGER_BYPASS_LOG'',
                    if verbose then ''false'' else ''true''),
                 (''CARTESI_LOG_LEVEL'', if verbose then ''info'' else ''error''),
                 (''CARTESI_SNAPSHOT_DIR'', ''/usr/share/rollups-node/snapshot''),
                 (''CARTESI_BIN_PATH'', binPath h),
                 (''CARTESI_LISTEN_PORT'', listenPort)];
            composeFiles =
              [''docker-compose-validator.yaml'', ''docker-compose-prompt.yaml'',
               ''docker-compose-database.yaml'', ''docker-compose-proxy.yaml'',
               ''docker-compose-anvil.yaml'', ''docker-compose-explorer.yaml'',
               ''docker-compose-snapshot-volume.yaml'']
              @ (if envFileExists h then [''docker-compose-envfile.yaml''] else []);
            files' = concat (map (\<lambda>f. [''--file'', path_join [binPath h, ''node'', f]]) composeFiles);
            compose_args =
              [''compose''] @ files' @ [''--project-directory'', ''.'', ''--project-name'', projectName]
              @ (if \<not> verbose then [''--progress'', ''quiet''] else []);
            up_args = (if \<not> verbose then [''--attach'', ''validator'', ''--attach'', ''prompt''] else [])
        in
        try_finally
          (try_catch
             (io_bind (execa d (ComposeUp compose_args up_args e)) (\<lambda>_. io_return ()))
             (\<lambda>err. if exitCode err \<noteq> Some 130 then throw err else io_return ()))
          (io_bind (execa d (ComposeDown compose_args e)) (\<lambda>_. io_return ())))"

text \<open>\<^verbatim>\<open>Run\<close> calls \<^verbatim>\<open>run()\<close> without a receiver (run.mjs, line 128).\<close>

definition Run ::
  "host \<Rightarrow> docker \<Rightarrow> bool \<Rightarrow> nat option \<Rightarrow> nat option \<Rightarrow> string option \<Rightarrow> unit io"
where
  "Run h d verbose blockTime epoch_length listen_port =
     Run_run h d Undefined verbose blockTime epoch_length listen_port"

section \<open>Concrete libraries, images and daemons\<close>

text \<open>
  The theorems about the validator hold for every \<open>libs\<close>. To run the validator on a
  concrete image, the three functions are given here as the spec describes them. First,
  reading decimal numbers and splitting a string at a character.
\<close>

definition is_digit :: "char \<Rightarrow> bool" where
  "is_digit c = (c \<in> set ''0123456789'')"

definition digit_val :: "char \<Rightarrow> nat" where
  "digit_val c = length (takeWhile (\<lambda>x. x \<noteq> c) ''0123456789'')"

definition nat_of_digits :: "string \<Rightarrow> nat" where
  "nat_of_digits s = foldl (\<lambda>a c. 10 * a + digit_val c) 0 s"

fun split_on :: "char \<Rightarrow> string \<Rightarrow> string list" where
  "split_on c [] = [[]]"
| "split_on c (x # xs) =
     (if x = c then [] # split_on c xs
      else (case split_on c xs of [] \<Rightarrow> [[x]] | p # ps \<Rightarrow> (x # p) # ps))"

definition is_number :: "string \<Rightarrow> bool" where
  "is_number s = (s \<noteq> [] \<and> list_all is_digit s \<and> (length s = 1 \<or> hd s \<noteq> CHR ''0''))"

text \<open>
  Modelled from the spec: the Version Comparator (section 4.2), which the code takes from the
  package \<^verbatim>\<open>semver\<close>, not among the sources. A version is MAJOR.MINOR.PATCH, three
  numbers without leading zeros, with an optional pre-release after \<open>-\<close> and optional
  build metadata after \<open>+\<close>. The result is the three numbers and whether there is a
  pre-release.
\<close>

definition semver_parse :: "string \<Rightarrow> ((nat \<times> nat \<times> nat) \<times> bool) option" where
  "semver_parse v =
     (let noBuild = takeWhile (\<lambda>c. c \<noteq> CHR ''+'') v;
          core = takeWhile (\<lambda>c. c \<noteq> CHR ''-'') noBuild;
          pre = dropWhile (\<lambda>c. c \<noteq> CHR ''-'') noBuild;
          build' = dropWhile (\<lambda>c. c \<noteq> CHR ''+'') v
      in case split_on (CHR ''.'') core of
           [a, b, c] \<Rightarrow>
             if is_number a \<and> is_number b \<and> is_number c \<and> length pre \<noteq> 1 \<and> length build' \<noteq> 1
             then Some ((nat_of_digits a, nat_of_digits b, nat_of_digits c), pre \<noteq> [])
             else None
         | _ \<Rightarrow> None)"

text \<open>
  Modelled from the spec: \<open>isValid\<close> of the Version Comparator (the truth value of
  \<^verbatim>\<open>semver.valid\<close>).
\<close>

definition spec_semver_valid :: "string \<Rightarrow> bool" where
  "spec_semver_valid v = (semver_parse v \<noteq> None)"

text \<open>
  Modelled from the spec: \<open>lessThan\<close> of the Version Comparator (\<^verbatim>\<open>semver.lt\<close>). The
  numbers compare numerically, in order; with equal numbers, a version with a pre-release
  is lower than one without.
\<close>

definition spec_semver_lt :: "string \<Rightarrow> string \<Rightarrow> bool" where
  "spec_semver_lt a b =
     (case (semver_parse a, semver_parse b) of
        (Some ((a1, a2, a3), apre), Some ((b1, b2, b3), bpre)) \<Rightarrow>
          a1 < b1 \<or> (a1 = b1 \<and> (a2 < b2 \<or> (a2 = b2 \<and> (a3 < b3 \<or> (a3 = b3 \<and> apre \<and> \<not> bpre)))))
      | _ \<Rightarrow> False)"

text \<open>Lower case of a letter, and the multiplier of each unit.\<close>

definition lower :: "char \<Rightarrow> char" where
  "lower c =
     (case map_of (zip ''ABCDEFGHIJKLMNOPQRSTUVWXYZ'' ''abcdefghijklmnopqrstuvwxyz'') c of
        None \<Rightarrow> c | Some l \<Rightarrow> l)"

definition unit_table :: "(string \<times> int) list" where
  "unit_table =
     [(''b'', 1),
      (''k'', 1024), (''kb'', 1024), (''ki'', 1024),
      (''m'', 1024 * 1024), (''mb'', 1024 * 1024), (''mi'', 1024 * 1024),
      (''g'', 1024 * 1024 * 1024), (''gb'', 1024 * 1024 * 1024), (''gi'', 1024 * 1024 * 1024)]"

text \<open>
  Modelled from the spec: \<open>parse\<close> of the Byte-Size Parser (section 4.1), which the code
  takes from the package \<^verbatim>\<open>bytes\<close>, not among the sources. A size is a decimal magnitude
  followed by a unit of \<open>unit_table\<close>, in any letter case; any other string gives \<open>None\<close>.
\<close>

definition spec_bytes_parse :: "string \<Rightarrow> int option" where
  "spec_bytes_parse s =
     (let magnitude = takeWhile is_digit s;
          suffix = map lower (dropWhile is_digit s)
      in if magnitude = [] then None
         else (case map_of unit_table suffix of
                 None \<Rightarrow> None
               | Some mult \<Rightarrow> Some (int (nat_of_digits magnitude) * mult)))"

definition spec_libs :: libs where
  "spec_libs = \<lparr> semver_valid = spec_semver_valid, semver_lt = spec_semver_lt,
                 bytes_parse = spec_bytes_parse \<rparr>"

text \<open>
  Inspections: a riscv64 image with an entrypoint and no labels, and variations of it.
\<close>

definition plain_image :: image_inspect where
  "plain_image =
     \<lparr> Architecture = ''riscv64'',
       Config = \<lparr> Cmd = None, Entrypoint = Some [''/opt/dapp''], Env = Some [''PATH=/bin''],
                  Labels = None, WorkingDir = Some '''' \<rparr> \<rparr>"

definition no_boot_image :: image_inspect where
  "no_boot_image = plain_image\<lparr> Config := (Config plain_image)\<lparr> Entrypoint := Some [], Cmd := Some [] \<rparr> \<rparr>"

definition amd64_image :: image_inspect where
  "amd64_image = plain_image\<lparr> Architecture := ''amd64'' \<rparr>"

definition labelled_image :: "string \<Rightarrow> image_inspect" where
  "labelled_image version =
     plain_image\<lparr> Config := (Config plain_image)
       \<lparr> Labels := Some [CARTESI_LABEL_SDK_VERSION \<mapsto> version] \<rparr> \<rparr>"

text \<open>
  Daemons: every command exits with 0 and \<^verbatim>\<open>container create\<close> prints the id \<open>c1\<close>;
  the same where \<^verbatim>\<open>container start\<close> exits with 1, where \<^verbatim>\<open>container cp\<close> exits with 1,
  where \<^verbatim>\<open>image save\<close> exits with 1, and where \<^verbatim>\<open>compose up\<close> exits with a given code.
\<close>

definition daemon :: "image_inspect \<Rightarrow> docker" where
  "daemon i = \<lparr> exit_code = (\<lambda>c. 0), stdout = (\<lambda>c. ''c1''), inspected = (\<lambda>img. i) \<rparr>"

definition start_fails :: "image_inspect \<Rightarrow> docker" where
  "start_fails i =
     (daemon i)\<lparr> exit_code := (\<lambda>c. case c of ContainerStart cid \<Rightarrow> 1 | _ \<Rightarrow> 0) \<rparr>"

definition cp_fails :: "image_inspect \<Rightarrow> docker" where
  "cp_fails i =
     (daemon i)\<lparr> exit_code := (\<lambda>c. case c of ContainerCp cid out \<Rightarrow> 1 | _ \<Rightarrow> 0) \<rparr>"

definition save_fails :: "image_inspect \<Rightarrow> docker" where
  "save_fails i =
     (daemon i)\<lparr> exit_code := (\<lambda>c. case c of ImageSave img out \<Rightarrow> 1 | _ \<Rightarrow> 0) \<rparr>"

definition up_exits :: "nat \<Rightarrow> docker" where
  "up_exits n =
     (daemon plain_image)\<lparr> exit_code := (\<lambda>c. case c of ComposeUp a u e \<Rightarrow> n | _ \<Rightarrow> 0) \<rparr>"

definition empty_world :: world where
  "empty_world = \<lparr> files = {}, modes = Map.empty, containers = [], calls = [], warnings = [] \<rparr>"

definition built_host :: host where
  "built_host =
     \<lparr> hashFile = Some (replicate 64 (CHR ''a'')),
       isHash = (\<lambda>s. take 2 s = ''0x'' \<and> length s = 66),
       binPath = ''/opt/cli'',
       envFileExists = False \<rparr>"

definition sample_info :: info where
  "sample_info =
     \<lparr> cmd = [''--port=5000''], dataSize = ''10Mb'', entrypoint = [''/opt/dapp''],
       env = [''PATH=/bin''], ramSize = ''128Mi'', sdkName = ''cartesi/sdk'',
       sdkVersion = ''0.9.0'', workdir = Some '''' \<rparr>"

section \<open>Properties of the command builders\<close>

lemma number_toString_4096: "number_toString 4096 = ''4096''"
  by (simp add: number_toString_def MAX_SAFE_INTEGER_def digit_def)

lemma number_toString_nonneg:
  assumes "0 \<le> i" and "i \<le> MAX_SAFE_INTEGER"
  shows "number_toString i = show_nat (nat i)"
  using assms by (simp add: number_toString_def del: show_nat.simps)

lemma blocks_aux:
  fixes m q r :: int
  assumes "m = 4096 * q + r" "0 \<le> r" "r < 4096"
  shows "4096 * (- q - 1) < - m \<and> - m \<le> 4096 * (- q)"
  using assms by simp

lemma ceiling_blocks:
  fixes n :: int
  shows "4096 * (\<lceil>real_of_int n / 4096\<rceil> - 1) < n \<and> n \<le> 4096 * \<lceil>real_of_int n / 4096\<rceil>"
proof -
  have "\<lceil>real_of_int n / real_of_int 4096\<rceil> = - (- n div 4096)"
    by (rule ceiling_divide_eq_div)
  hence e: "\<lceil>real_of_int n / 4096\<rceil> = - (- n div 4096)"
    by simp
  have m: "(- n) = 4096 * (- n div 4096) + (- n) mod 4096"
    by simp
  have m1: "0 \<le> (- n) mod 4096" by simp
  have m2: "(- n) mod 4096 < 4096" by simp
  from blocks_aux [OF m m1 m2] show ?thesis by (simp only: e minus_minus)
qed

lemma two_blocks:
  fixes j :: int
  shows "4096 * (j - 1) < 5000 \<Longrightarrow> 5000 \<le> 4096 * j \<Longrightarrow> j = 2"
  by simp

lemma blocks_bounded:
  fixes n k :: int
  assumes "4096 * (k - 1) < n" and "n \<le> 9007199254740991"
  shows "k \<le> 9007199254740991"
proof -
  from assms(1) have "4096 * k < n + 4096"
    by simp
  with assms(2) show ?thesis
    by linarith
qed

text \<open>
  C7. For every non-negative slack-byte allowance (a safe integer: at most
  \<open>2\<^sup>5\<^sup>3 - 1\<close>, the integers that JavaScript numbers hold exactly) the
  filesystem-to-block-image builder returns the fixed argument list with block size 4096
  and the \<^verbatim>\<open>--faketime\<close> flag, and its extra-size argument is \<open>+\<close> followed by the decimal
  text of the number \<open>k\<close> of whole 4096-byte blocks that cover the allowance: \<open>k\<close> is not
  negative, \<open>4096 * (k - 1) < extraBytes \<le> 4096 * k\<close>, that is
  \<open>k = ceil (extraBytes / 4096)\<close>.
\<close>

theorem createExt2Command_rounds_up:
  assumes "0 \<le> extraBytes" and "extraBytes \<le> MAX_SAFE_INTEGER"
  shows "\<exists>k. createExt2Command extraBytes =
            [''xgenext2fs'', ''--tarball'', ''/tmp/input'', ''--block-size'', ''4096'',
             ''--faketime'', ''-r'', ''+'' @ show_nat k, ''/tmp/output'']
          \<and> int k = \<lceil>real_of_int extraBytes / 4096\<rceil>
          \<and> 4096 * (int k - 1) < extraBytes \<and> extraBytes \<le> 4096 * int k"
proof -
  let ?c = "\<lceil>real_of_int extraBytes / 4096\<rceil>"
  from assms(1) have nonneg: "0 \<le> ?c"
    by (simp add: ceiling_le_iff [symmetric] zero_le_ceiling)
  from ceiling_blocks [of extraBytes] assms(2) have safe: "?c \<le> MAX_SAFE_INTEGER"
    unfolding MAX_SAFE_INTEGER_def by (blast intro: blocks_bounded)
  from assms have guard: "\<bar>extraBytes\<bar> \<le> MAX_SAFE_INTEGER"
    by simp
  have cmd_eq: "createExt2Command extraBytes =
      [''xgenext2fs'', ''--tarball'', ''/tmp/input'', ''--block-size'', ''4096'',
       ''--faketime'', ''-r'', ''+'' @ show_nat (nat ?c), ''/tmp/output'']"
    using guard number_toString_nonneg [OF nonneg safe]
    by (simp add: createExt2Command_def number_toString_4096 del: show_nat.simps)
  have k_eq: "int (nat ?c) = ?c"
    using nonneg by simp
  from ceiling_blocks [of extraBytes] k_eq cmd_eq show ?thesis
    by (intro exI [of _ "nat ?c"]) simp
qed

theorem createExt2Command_rounds_up_witness:
  "(0::int) \<le> 5000 \<and> 5000 \<le> MAX_SAFE_INTEGER
   \<and> createExt2Command 5000 =
       [''xgenext2fs'', ''--tarball'', ''/tmp/input'', ''--block-size'', ''4096'',
        ''--faketime'', ''-r'', ''+2'', ''/tmp/output'']"
proof -
  have h: "(0::int) \<le> 5000" by simp
  have b: "5000 \<le> MAX_SAFE_INTEGER" by (simp add: MAX_SAFE_INTEGER_def)
  from createExt2Command_rounds_up [OF h b] obtain k where
    c: "createExt2Command 5000 =
          [''xgenext2fs'', ''--tarball'', ''/tmp/input'', ''--block-size'', ''4096'',
           ''--faketime'', ''-r'', ''+'' @ show_nat k, ''/tmp/output'']"
    and lo: "4096 * (int k - 1) < 5000" and hi: "5000 \<le> 4096 * int k"
    by blast
  from lo hi have "k = 2" using two_blocks [of "int k"] by simp
  with c h b show ?thesis by (simp add: digit_def)
qed

text \<open>
  C8. For every configuration the block-image-to-snapshot builder returns a command that
  starts with the tool name, the configured RAM size, the drive label \<open>root\<close> and the fixed
  input and output paths; its arguments that start with \<open>--env=\<close> are exactly one per
  environment variable, in order; and its last argument is \<open>--entrypoint=\<close> followed by the
  entrypoint sequence concatenated with the command sequence, joined by single spaces.
\<close>

theorem createMachineSnapshotCommand_shape:
  "take 5 (createMachineSnapshotCommand i) =
      [''create_machine_snapshot'', ''--ram-length='' @ ramSize i, ''--drive-label=root'',
       ''--drive-filename=/tmp/input'', ''--output=/tmp/output'']
   \<and> filter (\<lambda>a. startsWith a ''--env='') (createMachineSnapshotCommand i) =
      map (\<lambda>v. ''--env='' @ v) (env i)
   \<and> take (length (env i)) (drop 6 (createMachineSnapshotCommand i)) =
      map (\<lambda>v. ''--env='' @ v) (env i)
   \<and> last (createMachineSnapshotCommand i) =
      ''--entrypoint='' @ join '' '' (entrypoint i @ cmd i)
   \<and> length (createMachineSnapshotCommand i) = 7 + length (env i)"
proof -
  have envs: "filter (\<lambda>a. startsWith a ''--env='') (map (\<lambda>v. ''--env='' @ v) vs) =
              map (\<lambda>v. ''--env='' @ v) vs" for vs
    by (induction vs) (simp_all add: startsWith_def)
  show ?thesis
    by (simp add: createMachineSnapshotCommand_def Let_def startsWith_def envs)
qed

text \<open>
  C10. When the working directory is absent or the empty string, the builder still puts an
  element at the working-directory position (index 5): the empty string. The length of the
  command does not depend on the working directory.
\<close>

theorem createMachineSnapshotCommand_empty_workdir:
  assumes "workdir i = None \<or> workdir i = Some ''''"
  shows "createMachineSnapshotCommand i ! 5 = ''''
       \<and> length (createMachineSnapshotCommand i) = 7 + length (env i)
       \<and> length (createMachineSnapshotCommand i) =
           length (createMachineSnapshotCommand (i\<lparr>workdir := Some wd\<rparr>))"
  using assms
  by (auto simp: createMachineSnapshotCommand_def Let_def truthy_opt_string_def truthy_string_def)

theorem createMachineSnapshotCommand_empty_workdir_witness:
  "(workdir sample_info = None \<or> workdir sample_info = Some '''')
   \<and> createMachineSnapshotCommand sample_info ! 5 = ''''
   \<and> length (createMachineSnapshotCommand sample_info) = 8
   \<and> length (createMachineSnapshotCommand (sample_info\<lparr>workdir := Some ''/opt''\<rparr>)) = 8"
  using createMachineSnapshotCommand_empty_workdir [of sample_info "''/opt''"]
  by (simp add: sample_info_def)

section \<open>Running the asynchronous functions\<close>

lemma io_bind_Inr:
  "io_bind m f w = (Inr y, w'') \<longleftrightarrow> (\<exists>x w'. m w = (Inr x, w') \<and> f x w' = (Inr y, w''))"
  by (cases "m w") (auto simp: io_bind_def split: sum.splits)

lemma io_bind_apply:
  "io_bind m f w = (case m w of (Inl e, w') \<Rightarrow> (Inl e, w') | (Inr x, w') \<Rightarrow> f x w')"
  by (simp add: io_bind_def)

lemma execa_Inr:
  "execa d c w = (Inr x, w') \<longleftrightarrow>
     exit_code d c = 0 \<and> x = stdout d c \<and> w' = effect d c (w\<lparr>calls := calls w @ [c]\<rparr>)"
  by (auto simp: execa_def Let_def)

lemma cleanup_apply:
  "io_bind (fs_remove a) (\<lambda>_. fs_remove b) w =
     (Inr (), w\<lparr>files := files w - {a} - {b}, modes := (modes w)(a := None, b := None)\<rparr>)"
  by (simp add: io_bind_def fs_remove_def)

lemma try_finally_cleanup:
  "try_finally m (io_bind (fs_remove a) (\<lambda>_. fs_remove b)) w =
     (fst (m w), (snd (m w))\<lparr>files := files (snd (m w)) - {a} - {b},
                            modes := (modes (snd (m w)))(a := None, b := None)\<rparr>)"
  by (cases "m w") (simp add: try_finally_def cleanup_apply)

lemma fs_chmod_Inr:
  assumes "fs_chmod p m w = (Inr u, w')"
  shows "p \<in> files w \<and> files w' = files w"
  using assms by (auto simp: fs_chmod_def split: if_splits)

lemma createTarball_ok:
  assumes "exit_code d (ImageSave img out) = 0"
  shows "createTarball d img out w =
           (Inr (), w\<lparr>files := insert out (files w), calls := calls w @ [ImageSave img out]\<rparr>)"
  using assms by (simp add: createTarball_def io_bind_def execa_def io_return_def)

lemma createTarball_fails:
  assumes "exit_code d (ImageSave img out) \<noteq> 0"
  shows "createTarball d img out w =
           (Inl (ExecaError (ImageSave img out) (exit_code d (ImageSave img out))),
            w\<lparr>calls := calls w @ [ImageSave img out]\<rparr>)"
  using assms by (simp add: createTarball_def io_bind_def execa_def)

lemma createTarball_Inr_files:
  assumes "createTarball d img out w = (Inr u, w')"
  shows "files w' = insert out (files w)"
  using assms
  by (auto simp: createTarball_def io_bind_Inr execa_Inr io_return_def)

lemma sdkRun_ok:
  assumes "\<And>c. exit_code d c = 0"
  shows "sdkRun d s c i out w =
    (Inr (), w\<lparr>files := insert out (files w),
               containers := removeAll (stdout d (ContainerCreate i s c))
                               (containers w @ [stdout d (ContainerCreate i s c)]),
               calls := calls w @ [ContainerCreate i s c,
                                   ContainerStart (stdout d (ContainerCreate i s c)),
                                   ContainerCp (stdout d (ContainerCreate i s c)) out,
                                   ContainerStop (stdout d (ContainerCreate i s c)),
                                   ContainerRm (stdout d (ContainerCreate i s c))]\<rparr>)"
  by (simp add: sdkRun_def io_bind_def execa_def assms io_return_def)

lemma sdkRun_Inr_files:
  assumes "sdkRun d s c i out w = (Inr u, w')"
  shows "files w' = insert out (files w)"
  using assms
  by (auto simp: sdkRun_def io_bind_Inr execa_Inr io_return_def)

lemma paths_distinct:
  "getAbsolutePath ctx [''image''] \<noteq> getAbsolutePath ctx [''image.tar'']"
  "getAbsolutePath ctx [''image''] \<noteq> getAbsolutePath ctx [''image.gnutar'']"
  "getAbsolutePath ctx [''image''] \<noteq> getAbsolutePath ctx [''image.ext2'']"
  "getAbsolutePath ctx [''image.ext2''] \<noteq> getAbsolutePath ctx [''image.tar'']"
  "getAbsolutePath ctx [''image.ext2''] \<noteq> getAbsolutePath ctx [''image.gnutar'']"
  "getAbsolutePath ctx [''image.tar''] \<noteq> getAbsolutePath ctx [''image.gnutar'']"
  by (simp_all add: getAbsolutePath_def)

section \<open>The libraries, images and daemons at concrete inputs\<close>

lemma lib_facts:
  "spec_semver_valid ''0.9.0''"
  "\<not> spec_semver_lt ''0.9.0'' ''0.9.0''"
  "spec_semver_valid ''0.8.9''"
  "spec_semver_lt ''0.8.9'' ''0.9.0''"
  "\<not> spec_semver_valid ''latest''"
  "spec_bytes_parse ''10Mb'' = Some 10485760"
  by (simp_all add: spec_semver_valid_def spec_semver_lt_def semver_parse_def Let_def is_number_def
        is_digit_def nat_of_digits_def digit_val_def spec_bytes_parse_def lower_def unit_table_def)

lemma spec_libs_simps:
  "semver_valid spec_libs = spec_semver_valid"
  "semver_lt spec_libs = spec_semver_lt"
  "bytes_parse spec_libs = spec_bytes_parse"
  by (simp_all add: spec_libs_def)

lemma image_facts:
  "image_info plain_image =
     \<lparr> cmd = [], dataSize = ''10Mb'', entrypoint = [''/opt/dapp''], env = [''PATH=/bin''],
       ramSize = ''128Mi'', sdkName = ''cartesi/sdk'', sdkVersion = ''0.9.0'', workdir = Some '''' \<rparr>"
  "image_info no_boot_image =
     \<lparr> cmd = [], dataSize = ''10Mb'', entrypoint = [], env = [''PATH=/bin''],
       ramSize = ''128Mi'', sdkName = ''cartesi/sdk'', sdkVersion = ''0.9.0'', workdir = Some '''' \<rparr>"
  "image_info (labelled_image v) =
     \<lparr> cmd = [], dataSize = ''10Mb'', entrypoint = [''/opt/dapp''], env = [''PATH=/bin''],
       ramSize = ''128Mi'', sdkName = ''cartesi/sdk'', sdkVersion = v, workdir = Some '''' \<rparr>"
  by (simp_all add: image_info_def plain_image_def no_boot_image_def labelled_image_def Let_def
        nullish_def or_else_def CARTESI_DEFAULT_SDK_VERSION_def CARTESI_DEFAULT_RAM_SIZE_def
        CARTESI_LABEL_SDK_VERSION_def CARTESI_LABEL_SDK_NAME_def CARTESI_LABEL_RAM_SIZE_def
        CARTESI_LABEL_DATA_SIZE_def CARTESI_LABEL_PREFIX_def)

lemma arch_facts:
  "Architecture plain_image = ''riscv64''"
  "Architecture no_boot_image = ''riscv64''"
  "Architecture (labelled_image v) = ''riscv64''"
  "Architecture amd64_image = ''amd64''"
  by (simp_all add: plain_image_def no_boot_image_def labelled_image_def amd64_image_def)

lemma daemon_simps:
  "exit_code (daemon i) c = 0"
  "stdout (daemon i) c = ''c1''"
  "inspected (daemon i) img = i"
  by (simp_all add: daemon_def)

lemma save_fails_simps:
  "exit_code (save_fails i) (ImageInspect img) = 0"
  "exit_code (save_fails i) (ImageSave img out) = 1"
  "inspected (save_fails i) img = i"
  by (simp_all add: save_fails_def daemon_def)

lemma up_exits_simps:
  "exit_code (up_exits n) (ComposeUp ca ua e) = n"
  "exit_code (up_exits n) (ComposeDown ca e) = 0"
  by (simp_all add: up_exits_def daemon_def)

lemma built_host_hash: "getMachineHash built_host \<noteq> None"
  by (simp add: getMachineHash_def built_host_def)

section \<open>The metadata validator\<close>

lemma getImageInfo_files: "files (snd (getImageInfo L d this img w)) = files w"
  by (simp add: getImageInfo_def io_bind_def execa_def Let_def throw_def io_return_def
        this_warn_def truthy_array_def split: sum.splits js_this.splits prod.splits)

lemma getImageInfo_arch:
  assumes "exit_code d (ImageInspect img) = 0"
    and "Architecture (inspected d img) \<noteq> ''riscv64''"
  shows "getImageInfo L d this img w =
           (Inl (InvalidArchitecture (Architecture (inspected d img))),
            w\<lparr>calls := calls w @ [ImageInspect img]\<rparr>)"
  using assms by (simp add: getImageInfo_def io_bind_def execa_def Let_def throw_def)

lemma getImageInfo_inspected:
  assumes "exit_code d (ImageInspect img) = 0"
    and "Architecture (inspected d img) = ''riscv64''"
  shows "getImageInfo L d this img w =
     (let i = image_info (inspected d img); w1 = w\<lparr>calls := calls w @ [ImageInspect img]\<rparr> in
      io_bind
             (if \<not> semver_valid L (sdkVersion i)
              then this_warn this ''sdk version is not a valid semver''
              else if sdkName i = ''cartesi/sdk''
                      \<and> semver_lt L (sdkVersion i) CARTESI_DEFAULT_SDK_VERSION
              then throw (UnsupportedSdkVersion (sdkVersion i))
              else io_return ()) (\<lambda>_.
           io_bind
             (if truthy_string (sdkVersion i) then io_return ()
              else this_warn this
                     (''Undefined '' @ CARTESI_LABEL_SDK_VERSION @ '' label, defaulting to ''
                      @ CARTESI_DEFAULT_SDK_VERSION)) (\<lambda>_.
           io_bind
             (if truthy_string (ramSize i) then io_return ()
              else this_warn this
                     (''Undefined '' @ CARTESI_LABEL_RAM_SIZE @ '' label, defaulting to ''
                      @ CARTESI_DEFAULT_RAM_SIZE)) (\<lambda>_.
           if bytes_parse L (dataSize i) = None
           then throw (InvalidDataSize (dataSize i))
           else io_return i))) w1)"
  using assms
  by (simp add: getImageInfo_def io_bind_def execa_def Let_def truthy_array_def)

lemma getImageInfo_accepts:
  assumes "exit_code d (ImageInspect img) = 0"
    and "Architecture (inspected d img) = ''riscv64''"
    and "semver_valid L (sdkVersion (image_info (inspected d img)))"
    and "\<not> (sdkName (image_info (inspected d img)) = ''cartesi/sdk''
            \<and> semver_lt L (sdkVersion (image_info (inspected d img))) CARTESI_DEFAULT_SDK_VERSION)"
    and "sdkVersion (image_info (inspected d img)) \<noteq> []"
    and "ramSize (image_info (inspected d img)) \<noteq> []"
    and "bytes_parse L (dataSize (image_info (inspected d img))) \<noteq> None"
  shows "getImageInfo L d this img w =
           (Inr (image_info (inspected d img)), w\<lparr>calls := calls w @ [ImageInspect img]\<rparr>)"
  using assms(3-)
  by (auto simp add: getImageInfo_inspected [OF assms(1,2)] Let_def io_bind_def io_return_def truthy_string_def)

lemma getImageInfo_old_version:
  assumes "exit_code d (ImageInspect img) = 0"
    and "Architecture (inspected d img) = ''riscv64''"
    and "semver_valid L (sdkVersion (image_info (inspected d img)))"
    and "sdkName (image_info (inspected d img)) = ''cartesi/sdk''"
    and "semver_lt L (sdkVersion (image_info (inspected d img))) CARTESI_DEFAULT_SDK_VERSION"
  shows "getImageInfo L d this img w =
           (Inl (UnsupportedSdkVersion (sdkVersion (image_info (inspected d img)))),
            w\<lparr>calls := calls w @ [ImageInspect img]\<rparr>)"
  using assms(3-)
  by (simp add: getImageInfo_inspected [OF assms(1,2)] Let_def io_bind_def throw_def)

lemma getImageInfo_invalid_version:
  assumes "exit_code d (ImageInspect img) = 0"
    and "Architecture (inspected d img) = ''riscv64''"
    and "\<not> semver_valid L (sdkVersion (image_info (inspected d img)))"
  shows "getImageInfo L d Undefined img w = (Inl TypeError, w\<lparr>calls := calls w @ [ImageInspect img]\<rparr>)"
  using assms(3-)
  by (simp add: getImageInfo_inspected [OF assms(1,2)] Let_def io_bind_def throw_def this_warn_def)

lemma getImageInfo_never_missing_boot_command:
  "fst (getImageInfo L d this img w) \<noteq> Inl UndefinedEntrypointOrCmd"
  by (simp add: getImageInfo_def io_bind_def execa_def Let_def throw_def io_return_def
        this_warn_def truthy_array_def split: sum.splits js_this.splits prod.splits)

lemma getImageInfo_plain:
  "getImageInfo spec_libs (daemon plain_image) this img w =
     (Inr (image_info plain_image), w\<lparr>calls := calls w @ [ImageInspect img]\<rparr>)"
  using getImageInfo_accepts [of "daemon plain_image" img spec_libs this w]
  by (simp add: daemon_simps arch_facts image_facts spec_libs_simps lib_facts
        CARTESI_DEFAULT_SDK_VERSION_def)

lemma getImageInfo_no_boot:
  "getImageInfo spec_libs (daemon no_boot_image) this img w =
     (Inr (image_info no_boot_image), w\<lparr>calls := calls w @ [ImageInspect img]\<rparr>)"
  using getImageInfo_accepts [of "daemon no_boot_image" img spec_libs this w]
  by (simp add: daemon_simps arch_facts image_facts spec_libs_simps lib_facts
        CARTESI_DEFAULT_SDK_VERSION_def)

lemma getImageInfo_labelled_min:
  "getImageInfo spec_libs (daemon (labelled_image ''0.9.0'')) this img w =
     (Inr (image_info (labelled_image ''0.9.0'')), w\<lparr>calls := calls w @ [ImageInspect img]\<rparr>)"
  using getImageInfo_accepts [of "daemon (labelled_image ''0.9.0'')" img spec_libs this w]
  by (simp add: daemon_simps arch_facts image_facts spec_libs_simps lib_facts
        CARTESI_DEFAULT_SDK_VERSION_def)

lemma getImageInfo_save_fails:
  "getImageInfo spec_libs (save_fails plain_image) this img w =
     (Inr (image_info plain_image), w\<lparr>calls := calls w @ [ImageInspect img]\<rparr>)"
  using getImageInfo_accepts [of "save_fails plain_image" img spec_libs this w]
  by (simp add: save_fails_simps arch_facts image_facts spec_libs_simps lib_facts
        CARTESI_DEFAULT_SDK_VERSION_def)

lemma getImageInfo_warn_needs_receiver:
  "fst (getImageInfo spec_libs (daemon (labelled_image ''latest'')) Command ''app'' empty_world) =
     Inr (image_info (labelled_image ''latest''))"
  using getImageInfo_inspected [of "daemon (labelled_image ''latest'')" "''app''" spec_libs Command empty_world]
  by (simp add: daemon_simps arch_facts image_facts spec_libs_simps lib_facts Let_def
        io_bind_def this_warn_def io_return_def truthy_string_def)

text \<open>
  C5. For an inspected riscv64 image whose toolset name is \<open>cartesi/sdk\<close> and whose
  toolset version is valid: when the version is lower than the minimum \<open>0.9.0\<close>, the
  validator fails with the unsupported-version error; when the version is the minimum
  itself (and the minimum is not lower than itself), the validator never fails with that
  error, and it returns the configuration as soon as the two later checks pass (the RAM
  size is not the empty string, the data size parses).
\<close>

theorem getImageInfo_sdk_version_check:
  assumes "exit_code d (ImageInspect img) = 0"
    and "Architecture (inspected d img) = ''riscv64''"
    and "i = image_info (inspected d img)"
    and "sdkName i = ''cartesi/sdk''"
    and "semver_valid L (sdkVersion i)"
  shows "(semver_lt L (sdkVersion i) CARTESI_DEFAULT_SDK_VERSION \<longrightarrow>
            fst (getImageInfo L d this img w) = Inl (UnsupportedSdkVersion (sdkVersion i)))
       \<and> (sdkVersion i = CARTESI_DEFAULT_SDK_VERSION
            \<and> \<not> semver_lt L CARTESI_DEFAULT_SDK_VERSION CARTESI_DEFAULT_SDK_VERSION \<longrightarrow>
            (\<forall>v. fst (getImageInfo L d this img w) \<noteq> Inl (UnsupportedSdkVersion v))
            \<and> (ramSize i \<noteq> [] \<and> bytes_parse L (dataSize i) \<noteq> None \<longrightarrow>
                 fst (getImageInfo L d this img w) = Inr i))"
proof (intro conjI impI)
  assume "semver_lt L (sdkVersion i) CARTESI_DEFAULT_SDK_VERSION"
  with assms show "fst (getImageInfo L d this img w) = Inl (UnsupportedSdkVersion (sdkVersion i))"
    by (simp add: getImageInfo_old_version)
next
  assume eq: "sdkVersion i = CARTESI_DEFAULT_SDK_VERSION
            \<and> \<not> semver_lt L CARTESI_DEFAULT_SDK_VERSION CARTESI_DEFAULT_SDK_VERSION"
  with assms show "\<forall>v. fst (getImageInfo L d this img w) \<noteq> Inl (UnsupportedSdkVersion v)"
    by (auto simp add: getImageInfo_inspected Let_def io_bind_def throw_def io_return_def
          this_warn_def split: js_this.splits)
next
  assume eq: "sdkVersion i = CARTESI_DEFAULT_SDK_VERSION
            \<and> \<not> semver_lt L CARTESI_DEFAULT_SDK_VERSION CARTESI_DEFAULT_SDK_VERSION"
    and rest: "ramSize i \<noteq> [] \<and> bytes_parse L (dataSize i) \<noteq> None"
  have "sdkVersion i \<noteq> []"
    using eq by (simp add: CARTESI_DEFAULT_SDK_VERSION_def)
  with assms eq rest show "fst (getImageInfo L d this img w) = Inr i"
    by (simp add: getImageInfo_accepts)
qed

theorem getImageInfo_sdk_version_check_witness:
  "spec_semver_valid ''0.8.9'' \<and> spec_semver_lt ''0.8.9'' CARTESI_DEFAULT_SDK_VERSION
   \<and> fst (getImageInfo spec_libs (daemon (labelled_image ''0.8.9'')) Undefined ''app'' empty_world) =
       Inl (UnsupportedSdkVersion ''0.8.9'')
   \<and> spec_semver_valid ''0.9.0'' \<and> \<not> spec_semver_lt ''0.9.0'' CARTESI_DEFAULT_SDK_VERSION
   \<and> fst (getImageInfo spec_libs (daemon (labelled_image ''0.9.0'')) Undefined ''app'' empty_world) =
       Inr (image_info (labelled_image ''0.9.0''))"
proof -
  have a: "fst (getImageInfo spec_libs (daemon (labelled_image ''0.8.9'')) Undefined ''app'' empty_world) =
       Inl (UnsupportedSdkVersion ''0.8.9'')"
    using getImageInfo_sdk_version_check [of "daemon (labelled_image ''0.8.9'')" "''app''"
            "image_info (labelled_image ''0.8.9'')" spec_libs Undefined empty_world]
    by (simp add: daemon_simps arch_facts image_facts spec_libs_simps lib_facts
          CARTESI_DEFAULT_SDK_VERSION_def)
  have b: "fst (getImageInfo spec_libs (daemon (labelled_image ''0.9.0'')) Undefined ''app'' empty_world) =
       Inr (image_info (labelled_image ''0.9.0''))"
    using getImageInfo_sdk_version_check [of "daemon (labelled_image ''0.9.0'')" "''app''"
            "image_info (labelled_image ''0.9.0'')" spec_libs Undefined empty_world]
    by (simp add: daemon_simps arch_facts image_facts spec_libs_simps lib_facts
          CARTESI_DEFAULT_SDK_VERSION_def)
  from a b show ?thesis
    by (simp add: lib_facts CARTESI_DEFAULT_SDK_VERSION_def)
qed

section \<open>The one-shot container\<close>

text \<open>
  C2. When \<^verbatim>\<open>container start\<close> exits with 1, \<^verbatim>\<open>sdkRun\<close> rejects at once: the commands
  run are \<^verbatim>\<open>create\<close> and \<^verbatim>\<open>start\<close> only, neither \<^verbatim>\<open>stop\<close> nor \<^verbatim>\<open>rm\<close>, and the container
  \<open>c1\<close> still exists. The same happens when \<^verbatim>\<open>container cp\<close> exits with 1: the commands
  run are \<^verbatim>\<open>create\<close>, \<^verbatim>\<open>start\<close> and \<^verbatim>\<open>cp\<close>.
\<close>

theorem sdkRun_leaks_container:
  "sdkRun (start_fails plain_image) ''cartesi/sdk:0.9.0'' createRootfsTarCommand
          ''/w/image.tar'' ''/w/image.gnutar'' empty_world =
     (Inl (ExecaError (ContainerStart ''c1'') 1),
      empty_world\<lparr>containers := [''c1''],
                  calls := [ContainerCreate ''/w/image.tar'' ''cartesi/sdk:0.9.0'' createRootfsTarCommand,
                            ContainerStart ''c1'']\<rparr>)
   \<and> sdkRun (cp_fails plain_image) ''cartesi/sdk:0.9.0'' createRootfsTarCommand
          ''/w/image.tar'' ''/w/image.gnutar'' empty_world =
     (Inl (ExecaError (ContainerCp ''c1'' ''/w/image.gnutar'') 1),
      empty_world\<lparr>containers := [''c1''],
                  calls := [ContainerCreate ''/w/image.tar'' ''cartesi/sdk:0.9.0'' createRootfsTarCommand,
                            ContainerStart ''c1'', ContainerCp ''c1'' ''/w/image.gnutar'']\<rparr>)"
  by (simp add: sdkRun_def io_bind_def execa_def start_fails_def cp_fails_def daemon_def
        empty_world_def)

section \<open>The build pipeline\<close>

lemma build_unfold:
  "build L d ctx img w =
     (case getImageInfo L d Undefined img (w\<lparr>files := {}, modes := Map.empty\<rparr>) of
        (Inl e, w1) \<Rightarrow> (Inl e, w1)
      | (Inr i, w1) \<Rightarrow>
          try_finally
            (io_bind (createTarball d img (getAbsolutePath ctx [''image.tar''])) (\<lambda>_.
             io_bind (sdkRun d (sdkName i @ '':'' @ sdkVersion i) createRootfsTarCommand
                        (getAbsolutePath ctx [''image.tar'']) (getAbsolutePath ctx [''image.gnutar''])) (\<lambda>_.
             io_bind (sdkRun d (sdkName i @ '':'' @ sdkVersion i)
                        (createExt2Command (case bytes_parse L (dataSize i) of None \<Rightarrow> 0 | Some n \<Rightarrow> n))
                        (getAbsolutePath ctx [''image.gnutar'']) (getAbsolutePath ctx [''image.ext2''])) (\<lambda>_.
             io_bind (sdkRun d (sdkName i @ '':'' @ sdkVersion i) (createMachineSnapshotCommand i)
                        (getAbsolutePath ctx [''image.ext2'']) (getAbsolutePath ctx [''image''])) (\<lambda>_.
             fs_chmod (getAbsolutePath ctx [''image'']) 493)))))
            (io_bind (fs_remove (getAbsolutePath ctx [''image.gnutar'']))
               (\<lambda>_. fs_remove (getAbsolutePath ctx [''image.tar'']))) w1)"
  by (simp add: build_def build_run_def Let_def io_bind_def fs_emptyDir_def split: sum.splits prod.splits)

lemma build_all_zero:
  assumes zero: "\<And>c. exit_code d c = 0"
    and acc: "getImageInfo L d Undefined img (w\<lparr>files := {}, modes := Map.empty\<rparr>) = (Inr i, w1)"
  shows "fst (build L d ctx img w) = Inr ()
       \<and> files (snd (build L d ctx img w)) =
           {getAbsolutePath ctx [''image''], getAbsolutePath ctx [''image.ext2'']}"
proof -
  have f1: "files w1 = {}"
    using getImageInfo_files [of L d Undefined img "w\<lparr>files := {}, modes := Map.empty\<rparr>"] acc
    by simp
  show ?thesis
    using paths_distinct [of ctx] f1
    by (auto simp add: build_unfold acc try_finally_cleanup io_bind_apply createTarball_ok zero
          sdkRun_ok fs_chmod_def)
qed

lemma build_files:
  "getAbsolutePath ctx [''image.tar''] \<notin> files (snd (build L d ctx img w))
   \<and> getAbsolutePath ctx [''image.gnutar''] \<notin> files (snd (build L d ctx img w))
   \<and> (fst (build L d ctx img w) = Inr () \<longrightarrow>
        files (snd (build L d ctx img w)) =
          {getAbsolutePath ctx [''image''], getAbsolutePath ctx [''image.ext2'']})"
proof (cases "getImageInfo L d Undefined img (w\<lparr>files := {}, modes := Map.empty\<rparr>)")
  case (Pair r w1)
  have f1: "files w1 = {}"
    using getImageInfo_files [of L d Undefined img "w\<lparr>files := {}, modes := Map.empty\<rparr>"] Pair
    by simp
  show ?thesis
  proof (cases r)
    case (Inl e)
    with Pair f1 show ?thesis by (simp add: build_unfold)
  next
    case (Inr i)
    let ?body = "io_bind (createTarball d img (getAbsolutePath ctx [''image.tar''])) (\<lambda>_.
             io_bind (sdkRun d (sdkName i @ '':'' @ sdkVersion i) createRootfsTarCommand
                        (getAbsolutePath ctx [''image.tar'']) (getAbsolutePath ctx [''image.gnutar''])) (\<lambda>_.
             io_bind (sdkRun d (sdkName i @ '':'' @ sdkVersion i)
                        (createExt2Command (case bytes_parse L (dataSize i) of None \<Rightarrow> 0 | Some n \<Rightarrow> n))
                        (getAbsolutePath ctx [''image.gnutar'']) (getAbsolutePath ctx [''image.ext2''])) (\<lambda>_.
             io_bind (sdkRun d (sdkName i @ '':'' @ sdkVersion i) (createMachineSnapshotCommand i)
                        (getAbsolutePath ctx [''image.ext2'']) (getAbsolutePath ctx [''image''])) (\<lambda>_.
             fs_chmod (getAbsolutePath ctx [''image'']) 493))))"
    have b: "build L d ctx img w =
        (fst (?body w1), (snd (?body w1))\<lparr>files := files (snd (?body w1))
             - {getAbsolutePath ctx [''image.gnutar'']} - {getAbsolutePath ctx [''image.tar'']},
           modes := (modes (snd (?body w1)))(getAbsolutePath ctx [''image.gnutar''] := None,
                       getAbsolutePath ctx [''image.tar''] := None)\<rparr>)"
      using Pair Inr by (simp add: build_unfold try_finally_cleanup)
    have ok: "files (snd (?body w1)) =
          {getAbsolutePath ctx [''image''], getAbsolutePath ctx [''image.ext2''],
           getAbsolutePath ctx [''image.gnutar''], getAbsolutePath ctx [''image.tar'']}"
      if "fst (?body w1) = Inr ()"
    proof -
      from that obtain w5 where "?body w1 = (Inr (), w5)"
        by (cases "?body w1") auto
      then obtain u1 u2 u3 u4 wa wb wc wd where
        s1: "createTarball d img (getAbsolutePath ctx [''image.tar'']) w1 = (Inr u1, wa)" and
        s2: "sdkRun d (sdkName i @ '':'' @ sdkVersion i) createRootfsTarCommand
               (getAbsolutePath ctx [''image.tar'']) (getAbsolutePath ctx [''image.gnutar'']) wa = (Inr u2, wb)" and
        s3: "sdkRun d (sdkName i @ '':'' @ sdkVersion i)
               (createExt2Command (case bytes_parse L (dataSize i) of None \<Rightarrow> 0 | Some n \<Rightarrow> n))
               (getAbsolutePath ctx [''image.gnutar'']) (getAbsolutePath ctx [''image.ext2'']) wb = (Inr u3, wc)" and
        s4: "sdkRun d (sdkName i @ '':'' @ sdkVersion i) (createMachineSnapshotCommand i)
               (getAbsolutePath ctx [''image.ext2'']) (getAbsolutePath ctx [''image'']) wc = (Inr u4, wd)" and
        s5: "fs_chmod (getAbsolutePath ctx [''image'']) 493 wd = (Inr (), w5)"
        unfolding io_bind_Inr by blast
      from createTarball_Inr_files [OF s1] sdkRun_Inr_files [OF s2] sdkRun_Inr_files [OF s3]
        sdkRun_Inr_files [OF s4] fs_chmod_Inr [OF s5] f1 \<open>?body w1 = (Inr (), w5)\<close>
      show ?thesis by auto
    qed
    show ?thesis
      using ok paths_distinct [of ctx] by (auto simp: b)
  qed
qed

lemma build_save_fails:
  assumes "fst (getImageInfo L d Undefined img (w\<lparr>files := {}, modes := Map.empty\<rparr>)) = Inr i"
    and "exit_code d (ImageSave img (getAbsolutePath ctx [''image.tar''])) \<noteq> 0"
  shows "fst (build L d ctx img w) =
           Inl (ExecaError (ImageSave img (getAbsolutePath ctx [''image.tar'']))
                  (exit_code d (ImageSave img (getAbsolutePath ctx [''image.tar'']))))"
proof (cases "getImageInfo L d Undefined img (w\<lparr>files := {}, modes := Map.empty\<rparr>)")
  case (Pair r w1)
  with assms(1) have "r = Inr i" by simp
  with Pair assms(2) show ?thesis
    by (simp add: build_unfold try_finally_cleanup io_bind_apply createTarball_fails)
qed

text \<open>
  C3. An image whose entrypoint and command are both empty is not rejected: after the
  defaults of lines 37 and 39 both values are arrays, every array is truthy, and the test
  of line 48 is never true (\<open>getImageInfo_never_missing_boot_command\<close>). On the image
  \<open>no_boot_image\<close> the validator returns a configuration with empty \<open>entrypoint\<close> and
  \<open>cmd\<close>, and the whole build then runs to the end.
\<close>

theorem getImageInfo_accepts_no_boot_command:
  "fst (getImageInfo spec_libs (daemon no_boot_image) Undefined ''app'' empty_world) =
     Inr \<lparr> cmd = [], dataSize = ''10Mb'', entrypoint = [], env = [''PATH=/bin''],
           ramSize = ''128Mi'', sdkName = ''cartesi/sdk'', sdkVersion = ''0.9.0'',
           workdir = Some '''' \<rparr>
   \<and> fst (build spec_libs (daemon no_boot_image) ''/w'' ''app'' empty_world) = Inr ()"
  using build_all_zero [of "daemon no_boot_image" spec_libs "''app''" empty_world
                           "image_info no_boot_image" _ "''/w''"]
  by (simp add: daemon_simps getImageInfo_no_boot image_facts)

text \<open>
  C6. For an inspected image whose architecture is not \<open>riscv64\<close>, the validator fails
  with the architecture error, and so does the build: the only docker command it has run
  is the inspection, and the working directory, emptied at the start, holds nothing.
\<close>

theorem build_rejects_architecture:
  assumes "exit_code d (ImageInspect img) = 0"
    and "Architecture (inspected d img) \<noteq> ''riscv64''"
  shows "fst (getImageInfo L d this img w) = Inl (InvalidArchitecture (Architecture (inspected d img)))
       \<and> build L d ctx img w =
           (Inl (InvalidArchitecture (Architecture (inspected d img))),
            w\<lparr>files := {}, modes := Map.empty, calls := calls w @ [ImageInspect img]\<rparr>)"
  using assms
  by (simp add: build_def build_run_def Let_def getImageInfo_arch io_bind_def fs_emptyDir_def)

theorem build_rejects_architecture_witness:
  "exit_code (daemon amd64_image) (ImageInspect ''app'') = 0
   \<and> Architecture (inspected (daemon amd64_image) ''app'') \<noteq> ''riscv64''
   \<and> build spec_libs (daemon amd64_image) ''/w'' ''app'' empty_world =
       (Inl (InvalidArchitecture ''amd64''), empty_world\<lparr>calls := [ImageInspect ''app'']\<rparr>)"
  using build_rejects_architecture [of "daemon amd64_image" "''app''" spec_libs Undefined
          empty_world "''/w''"]
  by (simp add: daemon_simps arch_facts empty_world_def)

text \<open>
  C4. With the label \<open>io.cartesi.rollups.sdk_version\<close> set to \<open>latest\<close>, which is not a
  valid version, the build stops in the validator with a \<^verbatim>\<open>TypeError\<close>: line 54 calls
  \<^verbatim>\<open>this.warn\<close>, and \<^verbatim>\<open>this\<close> is undefined there. No stage runs. (With a receiver that
  has \<^verbatim>\<open>warn\<close>, the validator would warn and return the configuration with the literal
  version: \<open>getImageInfo_warn_needs_receiver\<close>.)
\<close>

theorem build_aborts_on_invalid_sdk_version:
  "build spec_libs (daemon (labelled_image ''latest'')) ''/w'' ''app'' empty_world =
     (Inl TypeError, empty_world\<lparr>calls := [ImageInspect ''app'']\<rparr>)"
  using getImageInfo_invalid_version [of "daemon (labelled_image ''latest'')" "''app''" spec_libs
          "empty_world\<lparr>files := {}, modes := Map.empty\<rparr>"]
  by (simp add: build_unfold daemon_simps arch_facts image_facts spec_libs_simps lib_facts
        empty_world_def)

text \<open>
  C1, as amended. At the end of every run of the build, successful or not, the working
  directory holds neither the portable archive \<open>image.tar\<close> nor the filesystem archive
  \<open>image.gnutar\<close>. The block image \<open>image.ext2\<close> is not removed: after a successful run
  the working directory holds exactly the snapshot \<open>image\<close> and the block image. Removing
  a file that does not exist raises nothing: when the validator has accepted the image and
  \<^verbatim>\<open>docker image save\<close> fails, so that no archive was written, the run fails with the
  error of that command.
\<close>

theorem build_cleanup:
  "getAbsolutePath ctx [''image.tar''] \<notin> files (snd (build L d ctx img w))
   \<and> getAbsolutePath ctx [''image.gnutar''] \<notin> files (snd (build L d ctx img w))
   \<and> (fst (build L d ctx img w) = Inr () \<longrightarrow>
        files (snd (build L d ctx img w)) =
          {getAbsolutePath ctx [''image''], getAbsolutePath ctx [''image.ext2'']})
   \<and> (fst (getImageInfo L d Undefined img (w\<lparr>files := {}, modes := Map.empty\<rparr>)) = Inr i
        \<and> exit_code d (ImageSave img (getAbsolutePath ctx [''image.tar''])) \<noteq> 0 \<longrightarrow>
        fst (build L d ctx img w) =
          Inl (ExecaError (ImageSave img (getAbsolutePath ctx [''image.tar'']))
                 (exit_code d (ImageSave img (getAbsolutePath ctx [''image.tar''])))))"
  using build_files [of ctx L d img w] build_save_fails [of L d img w i ctx]
  by blast

theorem build_cleanup_witness:
  "fst (build spec_libs (daemon (labelled_image ''0.9.0'')) ''/work'' ''app'' empty_world) = Inr ()
   \<and> files (snd (build spec_libs (daemon (labelled_image ''0.9.0'')) ''/work'' ''app'' empty_world)) =
       {''/work/image'', ''/work/image.ext2''}
   \<and> ''/work/image.tar'' \<notin>
       files (snd (build spec_libs (daemon (labelled_image ''0.9.0'')) ''/work'' ''app'' empty_world))
   \<and> exit_code (save_fails plain_image) (ImageSave ''app'' ''/work/image.tar'') \<noteq> 0
   \<and> fst (build spec_libs (save_fails plain_image) ''/work'' ''app'' empty_world) =
       Inl (ExecaError (ImageSave ''app'' ''/work/image.tar'') 1)"
proof -
  have ok: "fst (build spec_libs (daemon (labelled_image ''0.9.0'')) ''/work'' ''app'' empty_world) = Inr ()"
    using build_all_zero [of "daemon (labelled_image ''0.9.0'')" spec_libs "''app''" empty_world
                           "image_info (labelled_image ''0.9.0'')" _ "''/work''"]
    by (simp add: daemon_simps getImageInfo_labelled_min)
  from ok build_cleanup [of "''/work''" spec_libs "daemon (labelled_image ''0.9.0'')" "''app''" empty_world]
  have a: "files (snd (build spec_libs (daemon (labelled_image ''0.9.0'')) ''/work'' ''app'' empty_world)) =
       {''/work/image'', ''/work/image.ext2''}
     \<and> ''/work/image.tar'' \<notin>
       files (snd (build spec_libs (daemon (labelled_image ''0.9.0'')) ''/work'' ''app'' empty_world))"
    by (simp add: getAbsolutePath_def)
  from build_cleanup [of "''/work''" spec_libs "save_fails plain_image" "''app''" empty_world
         "image_info plain_image"]
  have b: "fst (build spec_libs (save_fails plain_image) ''/work'' ''app'' empty_world) =
       Inl (ExecaError (ImageSave ''app'' ''/work/image.tar'') 1)"
    by (simp add: getAbsolutePath_def getImageInfo_save_fails save_fails_simps)
  from ok a b show ?thesis
    by (simp add: save_fails_simps)
qed

text \<open>
  The claim as first stated fails: on a plain riscv64 image, with every docker command
  succeeding, the build succeeds and the block image is still in the working directory.
\<close>

theorem build_leaves_block_image:
  "fst (build spec_libs (daemon plain_image) ''/w'' ''app'' empty_world) = Inr ()
   \<and> ''/w/image.ext2'' \<in> files (snd (build spec_libs (daemon plain_image) ''/w'' ''app'' empty_world))"
  using build_all_zero [of "daemon plain_image" spec_libs "''app''" empty_world
                           "image_info plain_image" _ "''/w''"]
  by (simp add: daemon_simps getImageInfo_plain getAbsolutePath_def)

section \<open>The run command\<close>

lemma getMachineHash_truthy:
  assumes "getMachineHash h \<noteq> None"
  shows "truthy_opt_string (getMachineHash h)"
  using assms
  by (auto simp: getMachineHash_def truthy_opt_string_def truthy_string_def
           split: option.splits if_splits)

lemma Run_lifecycle:
  assumes "getMachineHash h \<noteq> None"
  shows "\<exists>ca ua e. Run h d verbose bt el lp =
     try_finally
       (try_catch
          (io_bind (execa d (ComposeUp ca ua e)) (\<lambda>_. io_return ()))
          (\<lambda>err. if exitCode err \<noteq> Some 130 then throw err else io_return ()))
       (io_bind (execa d (ComposeDown ca e)) (\<lambda>_. io_return ()))
     \<and> take 1 ca = [''compose'']"
proof -
  have t: "truthy_opt_string (getMachineHash h) = True"
    using getMachineHash_truthy [OF assms] by simp
  show ?thesis
    unfolding Run_def Run_run_def Let_def
    by (simp only: t not_True_eq_False if_False) (intro exI conjI, rule refl, simp)
qed

lemma lifecycle_result:
  "try_finally
       (try_catch
          (io_bind (execa d up) (\<lambda>_. io_return ()))
          (\<lambda>err. if exitCode err \<noteq> Some 130 then throw err else io_return ()))
       (io_bind (execa d down) (\<lambda>_. io_return ())) w =
     (if exit_code d down \<noteq> 0 then Inl (ExecaError down (exit_code d down))
      else if exit_code d up = 0 \<or> exit_code d up = 130 then Inr ()
      else Inl (ExecaError up (exit_code d up)),
      (if exit_code d down = 0 then effect d down else id)
        ((if exit_code d up = 0 then effect d up else id) (w\<lparr>calls := calls w @ [up]\<rparr>)
           \<lparr>calls := calls w @ [up, down]\<rparr>))"
  by (cases up; cases down)
     (simp_all add: try_finally_def try_catch_def io_bind_def execa_def Let_def
        io_return_def throw_def)

text \<open>
  C9. Whenever the run command reaches \<^verbatim>\<open>compose up\<close> (a machine hash exists), the docker
  commands it runs are \<^verbatim>\<open>compose up\<close> and then \<^verbatim>\<open>compose down --volumes\<close>, whatever the
  exit code of the first. When \<^verbatim>\<open>compose up\<close> exits with 130 its error is not propagated,
  and the command succeeds if the teardown does. When it exits with another non-zero code
  and the teardown succeeds, the command fails with the error of \<^verbatim>\<open>compose up\<close>.
\<close>

theorem Run_teardown:
  assumes "getMachineHash h \<noteq> None"
  shows "\<exists>ca ua e.
     calls (snd (Run h d verbose bt el lp w)) = calls w @ [ComposeUp ca ua e, ComposeDown ca e]
   \<and> take 1 (argv (ComposeDown ca e)) = [''compose'']
   \<and> drop (length ca) (argv (ComposeDown ca e)) = [''down'', ''--volumes'']
   \<and> (exit_code d (ComposeUp ca ua e) = 130 \<longrightarrow>
        fst (Run h d verbose bt el lp w) \<noteq> Inl (ExecaError (ComposeUp ca ua e) 130)
        \<and> (exit_code d (ComposeDown ca e) = 0 \<longrightarrow> fst (Run h d verbose bt el lp w) = Inr ()))
   \<and> (exit_code d (ComposeUp ca ua e) \<noteq> 0 \<and> exit_code d (ComposeUp ca ua e) \<noteq> 130
        \<and> exit_code d (ComposeDown ca e) = 0 \<longrightarrow>
        fst (Run h d verbose bt el lp w) =
          Inl (ExecaError (ComposeUp ca ua e) (exit_code d (ComposeUp ca ua e))))"
proof -
  from Run_lifecycle [OF assms] obtain ca ua e where
    r: "Run h d verbose bt el lp =
     try_finally
       (try_catch
          (io_bind (execa d (ComposeUp ca ua e)) (\<lambda>_. io_return ()))
          (\<lambda>err. if exitCode err \<noteq> Some 130 then throw err else io_return ()))
       (io_bind (execa d (ComposeDown ca e)) (\<lambda>_. io_return ()))"
    and c: "take 1 ca = [''compose'']"
    by blast
  from c have "ca \<noteq> []"
    by auto
  hence z: "Suc 0 - length ca = 0"
    by (cases ca) simp_all
  from c have c': "take (Suc 0) ca = [''compose'']"
    by simp
  show ?thesis
    apply (rule exI [of _ ca])
    apply (rule exI [of _ ua])
    apply (rule exI [of _ e])
    apply (simp add: r lifecycle_result z c')
    done
qed

theorem Run_teardown_witness:
  "getMachineHash built_host \<noteq> None
   \<and> fst (Run built_host (up_exits 130) False None None None empty_world) = Inr ()
   \<and> (\<exists>c. fst (Run built_host (up_exits 1) False None None None empty_world) = Inl (ExecaError c 1))
   \<and> length (calls (snd (Run built_host (up_exits 1) False None None None empty_world))) = 2"
proof -
  from Run_teardown [OF built_host_hash, of "up_exits 130" False None None None empty_world]
  have a: "fst (Run built_host (up_exits 130) False None None None empty_world) = Inr ()"
    by (auto simp: up_exits_simps)
  from Run_teardown [OF built_host_hash, of "up_exits 1" False None None None empty_world]
  have b: "(\<exists>c. fst (Run built_host (up_exits 1) False None None None empty_world) = Inl (ExecaError c 1))
     \<and> length (calls (snd (Run built_host (up_exits 1) False None None None empty_world))) = 2"
    by (auto simp: up_exits_simps empty_world_def)
  from a b built_host_hash show ?thesis by simp
qed

end
